theory Spec2Isabelle
  imports Main "HOL-Library.Sublist" "HOL-Library.Multiset"
begin

section \<open>Strings\<close>

text \<open>
  JavaScript strings are modelled as \<^typ>\<open>string\<close>: lists of code units below 256, so
  that \<open>length\<close> is the JavaScript \<open>.length\<close>. The helpers below are the string
  operations of the language that \<open>src/scraper.js\<close> calls, on that range.
\<close>

text \<open>
  \<open>toLowerCase\<close> maps the letters A to Z and the capital letters of the range U+00C0 to
  U+00DE (all but the multiplication sign U+00D7) to their small letters.
\<close>

definition asciiUpper :: string where
  "asciiUpper = ''ABCDEFGHIJKLMNOPQRSTUVWXYZ''"

definition asciiLower :: string where
  "asciiLower = ''abcdefghijklmnopqrstuvwxyz''"

definition latinUpper :: string where
  "latinUpper =
     [CHR 0xC0, CHR 0xC1, CHR 0xC2, CHR 0xC3, CHR 0xC4, CHR 0xC5, CHR 0xC6, CHR 0xC7,
      CHR 0xC8, CHR 0xC9, CHR 0xCA, CHR 0xCB, CHR 0xCC, CHR 0xCD, CHR 0xCE, CHR 0xCF,
      CHR 0xD0, CHR 0xD1, CHR 0xD2, CHR 0xD3, CHR 0xD4, CHR 0xD5, CHR 0xD6,
      CHR 0xD8, CHR 0xD9, CHR 0xDA, CHR 0xDB, CHR 0xDC, CHR 0xDD, CHR 0xDE]"

definition latinLower :: string where
  "latinLower =
     [CHR 0xE0, CHR 0xE1, CHR 0xE2, CHR 0xE3, CHR 0xE4, CHR 0xE5, CHR 0xE6, CHR 0xE7,
      CHR 0xE8, CHR 0xE9, CHR 0xEA, CHR 0xEB, CHR 0xEC, CHR 0xED, CHR 0xEE, CHR 0xEF,
      CHR 0xF0, CHR 0xF1, CHR 0xF2, CHR 0xF3, CHR 0xF4, CHR 0xF5, CHR 0xF6,
      CHR 0xF8, CHR 0xF9, CHR 0xFA, CHR 0xFB, CHR 0xFC, CHR 0xFD, CHR 0xFE]"

definition toLowerChar :: "char \<Rightarrow> char" where
  "toLowerChar c =
     (case map_of (zip (asciiUpper @ latinUpper) (asciiLower @ latinLower)) c of
        Some d \<Rightarrow> d
      | None \<Rightarrow> c)"

definition toLowerCase :: "string \<Rightarrow> string" where
  "toLowerCase s = map toLowerChar s"

text \<open>
  The comparison of class names in a quirks-mode document is ASCII case-insensitive: both
  sides are taken with the letters A to Z replaced by a to z.
\<close>

definition asciiLowerChar :: "char \<Rightarrow> char" where
  "asciiLowerChar c = (case map_of (zip asciiUpper asciiLower) c of Some d \<Rightarrow> d | None \<Rightarrow> c)"

definition asciiLowerCase :: "string \<Rightarrow> string" where
  "asciiLowerCase s = map asciiLowerChar s"

fun startsWith :: "string \<Rightarrow> string \<Rightarrow> bool" where
  "startsWith s [] = True"
| "startsWith [] (p # ps) = False"
| "startsWith (c # cs) (p # ps) = (c = p \<and> startsWith cs ps)"

text \<open>\<open>s.includes(pat)\<close>: \<open>pat\<close> occurs in \<open>s\<close> as a contiguous substring.\<close>

fun includesStr :: "string \<Rightarrow> string \<Rightarrow> bool" where
  "includesStr [] pat = (pat = [])"
| "includesStr (c # cs) pat = (startsWith (c # cs) pat \<or> includesStr cs pat)"

text \<open>\<open>xs.join(' ')\<close>.\<close>

fun joinSpace :: "string list \<Rightarrow> string" where
  "joinSpace [] = []"
| "joinSpace [x] = x"
| "joinSpace (x # y # ys) = x @ '' '' @ joinSpace (y # ys)"

definition isBlank :: "char \<Rightarrow> bool" where
  "isBlank c = (c = CHR '' '' \<or> c = CHR 0x09)"

text \<open>
  White space as \<open>\s\<close> and \<open>String.prototype.trim\<close> see it: tab, line feed, vertical
  tab, form feed, carriage return, space and, above the ASCII range, the no-break space
  U+00A0.
\<close>

definition isWhitespace :: "char \<Rightarrow> bool" where
  "isWhitespace c =
     (c = CHR '' '' \<or> c = CHR 0x09 \<or> c = CHR 0x0A \<or> c = CHR 0x0B \<or> c = CHR 0x0C \<or> c = CHR 0x0D
      \<or> c = CHR 0xA0)"

text \<open>
  \<open>text.replace(/[ \t]+/g, ' ')\<close>: every maximal run of spaces and tabs becomes one space.
  The flag says whether the previous character belonged to the run being replaced.
\<close>

fun collapseSpaces :: "bool \<Rightarrow> string \<Rightarrow> string" where
  "collapseSpaces inRun [] = []"
| "collapseSpaces inRun (c # cs) =
     (if isBlank c then (if inRun then collapseSpaces True cs else CHR '' '' # collapseSpaces True cs)
      else c # collapseSpaces False cs)"

definition trim :: "string \<Rightarrow> string" where
  "trim s = rev (dropWhile isWhitespace (rev (dropWhile isWhitespace s)))"

definition normalizeSpaces :: "string \<Rightarrow> string" where
  "normalizeSpaces txt = (if txt = [] then [] else trim (collapseSpaces False txt))"

text \<open>
  \<open>text.split(/\s+/)\<close> cuts at runs of whitespace; cutting at every whitespace character
  gives the same non-empty pieces, and \<open>countWords\<close> keeps only those.
\<close>

primrec splitWhitespace :: "string \<Rightarrow> string list" where
  "splitWhitespace [] = [[]]"
| "splitWhitespace (c # cs) =
     (if isWhitespace c then [] # splitWhitespace cs
      else (case splitWhitespace cs of [] \<Rightarrow> [[c]] | w # ws \<Rightarrow> (c # w) # ws))"

definition countWords :: "string \<Rightarrow> nat" where
  "countWords txt = length (filter (\<lambda>word. length word > 0) (splitWhitespace txt))"

definition digitChar :: "nat \<Rightarrow> char" where
  "digitChar d = ''0123456789'' ! d"

text \<open>The decimal rendering of a counter inside a template literal.\<close>

fun showNat :: "nat \<Rightarrow> string" where
  "showNat n = (if n < 10 then [digitChar n] else showNat (n div 10) @ [digitChar (n mod 10)])"

declare showNat.simps [simp del]

definition isDigit :: "char \<Rightarrow> bool" where
  "isDigit c = (c \<in> set ''0123456789'')"

definition isWordChar :: "char \<Rightarrow> bool" where
  "isWordChar c =
     (c \<in> set ''abcdefghijklmnopqrstuvwxyzABCDEFGHIJKLMNOPQRSTUVWXYZ0123456789_'')"

text \<open>
  The regular expression \<open>/\b\d{3}[-.]?\d{3}[-.]?\d{4}\b/\<close>. \<open>takeDigits n s\<close> consumes
  \<open>\d{n}\<close>, \<open>optSeparator\<close> consumes \<open>[-.]?\<close> (a digit must follow, so the separator is
  taken whenever it is there), and the closing \<open>\b\<close> asks for the end of the string or a
  non-word character. The opening \<open>\b\<close> asks the same of the character before the match.
\<close>

definition takeDigits :: "nat \<Rightarrow> string \<Rightarrow> string option" where
  "takeDigits n s =
     (if n \<le> length s \<and> list_all isDigit (take n s) then Some (drop n s) else None)"

definition optSeparator :: "string \<Rightarrow> string" where
  "optSeparator s =
     (case s of [] \<Rightarrow> [] | c # cs \<Rightarrow> if c = CHR ''-'' \<or> c = CHR ''.'' then cs else c # cs)"

definition phoneHere :: "string \<Rightarrow> bool" where
  "phoneHere s =
     (case takeDigits 3 s of
        None \<Rightarrow> False
      | Some r1 \<Rightarrow>
          (case takeDigits 3 (optSeparator r1) of
             None \<Rightarrow> False
           | Some r2 \<Rightarrow>
               (case takeDigits 4 (optSeparator r2) of
                  None \<Rightarrow> False
                | Some r3 \<Rightarrow> (case r3 of [] \<Rightarrow> True | c # cs \<Rightarrow> \<not> isWordChar c))))"

fun phoneFrom :: "bool \<Rightarrow> string \<Rightarrow> bool" where
  "phoneFrom afterWord [] = False"
| "phoneFrom afterWord (c # cs) =
     ((\<not> afterWord \<and> phoneHere (c # cs)) \<or> phoneFrom (isWordChar c) cs)"

definition matchPhone :: "string \<Rightarrow> bool" where
  "matchPhone s = phoneFrom False s"

text \<open>
  The regular expression \<open>/"[^"]{20,}"/\<close>: a double quote, then at least 20 characters
  other than a double quote, then a double quote.
\<close>

fun matchQuoted :: "string \<Rightarrow> bool" where
  "matchQuoted [] = False"
| "matchQuoted (c # cs) =
     ((c = CHR 0x22 \<and> 20 \<le> length (takeWhile (\<lambda>d. d \<noteq> CHR 0x22) cs)
         \<and> dropWhile (\<lambda>d. d \<noteq> CHR 0x22) cs \<noteq> [])
      \<or> matchQuoted cs)"


section \<open>Candidates, groups and sections\<close>

text \<open>
  A node of the page is identified by its place in the tree: the indices of the child
  positions from the node up to the root element, innermost first.
\<close>

type_synonym nodeRef = "nat list"

record position =
  top_px :: int
  left_px :: int
  bottom_px :: int
  right_px :: int
  width_px :: int
  height_px :: int

text \<open>What \<open>findAssociatedButton\<close> returns; \<open>null\<close> is \<open>None\<close>.\<close>

record buttonInfo =
  hasButton :: bool
  buttonText :: "string option"
  buttonElement :: "nodeRef option"

text \<open>
  The objects pushed on \<open>elements\<close>. The walker pushes no \<open>isCard\<close> property, which
  reads as false; \<open>id\<close> is \<open>node.id || null\<close>.
\<close>

record candidate =
  element :: nodeRef
  tag :: string
  "text" :: string
  wordCount :: nat
  isHeading :: bool
  position :: position
  xpath :: string
  buttonInfo :: buttonInfo
  classList :: "string list"
  elemId :: "string option"
  isCard :: bool

record group =
  primaryElement :: candidate
  elements :: "candidate list"
  combinedText :: string
  group_hasButton :: bool
  group_buttonText :: "string option"

datatype sectionType =
  Hero | About | Service | Cta | Testimonial | Faq | Benefit | Process | Footer | Other

fun typeName :: "sectionType \<Rightarrow> string" where
  "typeName Hero = ''hero''"
| "typeName About = ''about''"
| "typeName Service = ''service''"
| "typeName Cta = ''cta''"
| "typeName Testimonial = ''testimonial''"
| "typeName Faq = ''faq''"
| "typeName Benefit = ''benefit''"
| "typeName Process = ''process''"
| "typeName Footer = ''footer''"
| "typeName Other = ''other''"

record sectionRec =
  sectionId :: string
  sectionType :: sectionType
  section_element :: string
  section_text :: string
  charCount :: nat
  parentContainer :: string
  section_xpath :: string
  order :: nat
  section_keywords :: "string list"
  section_hasButton :: bool
  section_buttonText :: "string option"


section \<open>The position sort\<close>

text \<open>The comparator handed to \<open>elements.sort\<close>; \<open>rowThreshold\<close> is 50.\<close>

definition comparePosition :: "candidate \<Rightarrow> candidate \<Rightarrow> int" where
  "comparePosition a b =
     (if \<bar>top_px (position a) - top_px (position b)\<bar> < 50
      then left_px (position a) - left_px (position b)
      else top_px (position a) - top_px (position b))"

text \<open>
  \<open>Array.prototype.sort\<close> belongs to the language, not to the repository; the callback runs
  in the Chromium that Puppeteer drives, whose engine sorts with TimSort. An array of fewer
  than 64 elements is one run there (the minimal run length is the length of the array):
  \<open>CountAndMakeRun\<close> finds the run the array starts with, and reverses it when it is
  strictly descending, and \<open>BinaryInsertionSort\<close> inserts the remaining elements one by
  one. The definitions below are these two steps. For an array of 64 elements or more the
  engine cuts the array into several such runs and merges them; on a comparator that is
  consistent on the array every stable sort returns the same array, the one computed here.
\<close>

text \<open>
  The loop of \<open>CountAndMakeRun\<close> from the third element on: the run goes on while
  \<open>order < 0\<close> (descending) or \<open>order >= 0\<close> (ascending), where \<open>order\<close> compares the
  current element with the previous one. The result is the rest of the run and what is
  left of the array.
\<close>

fun extendRun :: "('a \<Rightarrow> 'a \<Rightarrow> int) \<Rightarrow> bool \<Rightarrow> 'a \<Rightarrow> 'a list \<Rightarrow> 'a list \<times> 'a list" where
  "extendRun cmp isDescending previousElement [] = ([], [])"
| "extendRun cmp isDescending previousElement (currentElement # after) =
     (if (if isDescending then cmp currentElement previousElement \<ge> 0
          else cmp currentElement previousElement < 0)
      then ([], currentElement # after)
      else (case extendRun cmp isDescending currentElement after of
              (run, rest) \<Rightarrow> (currentElement # run, rest)))"

text \<open>The run, in ascending order, and the elements after it.\<close>

fun countAndMakeRun :: "('a \<Rightarrow> 'a \<Rightarrow> int) \<Rightarrow> 'a list \<Rightarrow> 'a list \<times> 'a list" where
  "countAndMakeRun cmp [] = ([], [])"
| "countAndMakeRun cmp [x] = ([x], [])"
| "countAndMakeRun cmp (elementHigh # elementLow # after) =
     (let isDescending = (cmp elementLow elementHigh < 0)
      in case extendRun cmp isDescending elementLow after of
           (run, rest) \<Rightarrow>
             (if isDescending then rev (elementHigh # elementLow # run)
              else elementHigh # elementLow # run,
              rest))"

text \<open>
  The binary search of \<open>BinaryInsertionSort\<close> for the place of \<open>pivot\<close> in the sorted
  array \<open>arr\<close>, between \<open>left\<close> and \<open>right\<close>.
\<close>

function binarySearch :: "('a \<Rightarrow> 'a \<Rightarrow> int) \<Rightarrow> 'a \<Rightarrow> 'a list \<Rightarrow> nat \<Rightarrow> nat \<Rightarrow> nat" where
  "binarySearch cmp pivot arr left right =
     (if left < right then
        (let mid = left + (right - left) div 2
         in if cmp pivot (arr ! mid) < 0 then binarySearch cmp pivot arr left mid
            else binarySearch cmp pivot arr (mid + 1) right)
      else left)"
  by pat_completeness auto

termination
  by (relation "measure (\<lambda>(cmp, pivot, arr, left, right). right - left)") auto

declare binarySearch.simps [simp del]

text \<open>One round of the outer loop: the pivot goes to the place found, the tail moves up.\<close>

definition insertPivot :: "('a \<Rightarrow> 'a \<Rightarrow> int) \<Rightarrow> 'a list \<Rightarrow> 'a \<Rightarrow> 'a list" where
  "insertPivot cmp arr pivot =
     (let left = binarySearch cmp pivot arr 0 (length arr)
      in take left arr @ pivot # drop left arr)"

definition binaryInsertionSort :: "('a \<Rightarrow> 'a \<Rightarrow> int) \<Rightarrow> 'a list \<Rightarrow> 'a list \<Rightarrow> 'a list" where
  "binaryInsertionSort cmp run rest = foldl (insertPivot cmp) run rest"

definition sortBy :: "('a \<Rightarrow> 'a \<Rightarrow> int) \<Rightarrow> 'a list \<Rightarrow> 'a list" where
  "sortBy cmp xs =
     (case countAndMakeRun cmp xs of (run, rest) \<Rightarrow> binaryInsertionSort cmp run rest)"


section \<open>The grouper\<close>

definition newGroup :: "candidate \<Rightarrow> group" where
  "newGroup current =
     \<lparr> primaryElement = current,
       elements = [current],
       combinedText = text current,
       group_hasButton = hasButton (buttonInfo current),
       group_buttonText = buttonText (buttonInfo current) \<rparr>"

definition addToGroup :: "group \<Rightarrow> candidate \<Rightarrow> group" where
  "addToGroup g nxt =
     g \<lparr> elements := elements g @ [nxt],
         combinedText :=
           (if combinedText g \<noteq> [] \<and> text nxt \<noteq> [] then combinedText g @ '' '' @ text nxt
            else combinedText g),
         group_hasButton := (if hasButton (buttonInfo nxt) then True else group_hasButton g),
         group_buttonText :=
           (if hasButton (buttonInfo nxt) then buttonText (buttonInfo nxt)
            else group_buttonText g) \<rparr>"

text \<open>
  The inner \<open>while (j < elements.length)\<close> loop. \<open>prev\<close> is \<open>elements[j-1]\<close> and the list
  is \<open>elements[j..]\<close>; the result is the group and what is left from the final \<open>j\<close> on.
\<close>

fun collectFollowing :: "candidate \<Rightarrow> group \<Rightarrow> candidate list \<Rightarrow> group \<times> candidate list" where
  "collectFollowing prev g [] = (g, [])"
| "collectFollowing prev g (nxt # rest) =
     (if isHeading nxt \<or> isCard nxt then (g, nxt # rest)
      else if top_px (position nxt) - bottom_px (position prev) > 150 then (g, nxt # rest)
      else collectFollowing nxt (addToGroup g nxt) rest)"

definition keepWithContent :: "group \<Rightarrow> group list" where
  "keepWithContent g = (if combinedText g \<noteq> [] \<and> trim (combinedText g) \<noteq> [] then [g] else [])"

lemma collectFollowing_length: "length (snd (collectFollowing prev g xs)) \<le> length xs"
  by (induction xs arbitrary: prev g) (auto simp: le_SucI)

function groupRelatedContent :: "candidate list \<Rightarrow> group list" where
  "groupRelatedContent [] = []"
| "groupRelatedContent (current # rest) =
     (if isHeading current \<and> \<not> isCard current
      then keepWithContent (fst (collectFollowing current (newGroup current) rest))
             @ groupRelatedContent (snd (collectFollowing current (newGroup current) rest))
      else keepWithContent (newGroup current) @ groupRelatedContent rest)"
  by pat_completeness auto
termination
  by (relation "measure length") (auto simp: collectFollowing_length less_Suc_eq_le)




section \<open>The classifier\<close>

definition determineSectionType :: "group \<Rightarrow> sectionType" where
  "determineSectionType g =
     (let txt = toLowerCase (combinedText g);
          primaryTag = tag (primaryElement g);
          classes = toLowerCase (joinSpace (classList (primaryElement g)));
          ident = toLowerCase (case elemId (primaryElement g) of None \<Rightarrow> [] | Some i \<Rightarrow> i)
      in
      if (primaryTag = ''h1'' \<and> top_px (position (primaryElement g)) < 800)
         \<or> includesStr classes ''hero''
         \<or> includesStr ident ''hero''
      then Hero
      else if group_hasButton g \<and>
         (includesStr txt ''call now''
          \<or> includesStr txt ''get quote''
          \<or> includesStr txt ''free estimate''
          \<or> includesStr txt ''contact''
          \<or> matchPhone txt)
      then Cta
      else if includesStr txt ''service''
         \<or> includesStr txt ''residential''
         \<or> includesStr txt ''commercial''
         \<or> includesStr txt ''construction''
         \<or> includesStr txt ''estate''
         \<or> includesStr txt ''hoarding''
         \<or> includesStr txt ''appliance''
         \<or> includesStr txt ''furniture''
         \<or> includesStr classes ''service''
         \<or> isCard (primaryElement g)
      then Service
      else if includesStr txt ''testimonial''
         \<or> includesStr txt ''review''
         \<or> includesStr txt ''customer''
         \<or> includesStr txt ''client''
         \<or> matchQuoted txt
         \<or> includesStr classes ''testimonial''
         \<or> includesStr classes ''review''
      then Testimonial
      else if includesStr txt ''faq''
         \<or> includesStr txt ''frequently asked''
         \<or> includesStr txt ''question''
         \<or> includesStr txt ''answer''
         \<or> includesStr classes ''faq''
         \<or> includesStr classes ''accordion''
      then Faq
      else if includesStr txt ''why choose''
         \<or> includesStr txt ''benefit''
         \<or> includesStr txt ''advantage''
         \<or> includesStr txt ''licensed''
         \<or> includesStr txt ''insured''
         \<or> includesStr txt ''eco-friendly''
         \<or> includesStr classes ''benefit''
         \<or> includesStr classes ''feature''
      then Benefit
      else if includesStr txt ''how it works''
         \<or> includesStr txt ''process''
         \<or> includesStr txt ''step''
         \<or> includesStr txt ''simple''
         \<or> includesStr classes ''process''
         \<or> includesStr classes ''steps''
      then Process
      else if includesStr txt ''about''
         \<or> includesStr txt ''our company''
         \<or> includesStr txt ''who we are''
         \<or> includesStr txt ''our mission''
         \<or> includesStr classes ''about''
      then About
      else if top_px (position (primaryElement g)) > 3000
         \<or> includesStr classes ''footer''
         \<or> includesStr txt ''copyright''
         \<or> includesStr txt ''all rights reserved''
      then Footer
      else Other)"

















section \<open>The section assembler\<close>

definition getParentContainer :: "candidate \<Rightarrow> string" where
  "getParentContainer el =
     (if list_ex (\<lambda>c. includesStr c ''header'') (classList el) then ''header''
      else if list_ex (\<lambda>c. includesStr c ''hero'') (classList el) then ''hero-section''
      else if list_ex (\<lambda>c. includesStr c ''service'') (classList el) then ''services-section''
      else if list_ex (\<lambda>c. includesStr c ''testimonial'') (classList el)
        then ''testimonials-section''
      else if list_ex (\<lambda>c. includesStr c ''footer'') (classList el) then ''footer''
      else if list_ex (\<lambda>c. includesStr c ''main'') (classList el) then ''main''
      else if list_ex (\<lambda>c. includesStr c ''content'') (classList el) then ''content''
      else if list_ex (\<lambda>c. includesStr c ''container'') (classList el) then ''container''
      else ''section'')"

text \<open>\<open>this.sectionCounter\<close>: one counter per category.\<close>

type_synonym sectionCounter = "sectionType \<Rightarrow> nat"

definition resetCounters :: "sectionCounter \<Rightarrow> sectionCounter" where
  "resetCounters counter = (\<lambda>key. 0)"

text \<open>
  The callback of \<open>groupedSections.map\<close>: it classifies the group, increments that
  category's counter and builds the section from the incremented counter.
\<close>

definition makeSection :: "sectionCounter \<Rightarrow> group \<Rightarrow> nat \<Rightarrow> sectionCounter \<times> sectionRec" where
  "makeSection counter g index =
     (let sectionType = determineSectionType g;
          counter' = counter (sectionType := counter sectionType + 1)
      in (counter',
          \<lparr> sectionId = typeName sectionType @ ''-'' @ showNat (counter' sectionType),
            sectionType = sectionType,
            section_element = tag (primaryElement g),
            section_text = combinedText g,
            charCount = length (combinedText g),
            parentContainer = getParentContainer (primaryElement g),
            section_xpath = xpath (primaryElement g),
            order = index + 1,
            section_keywords = [],
            section_hasButton = group_hasButton g,
            section_buttonText = group_buttonText g \<rparr>))"

text \<open>\<open>groupedSections.map\<close>, from the given index on, threading the counters.\<close>

fun mapSections :: "sectionCounter \<Rightarrow> nat \<Rightarrow> group list \<Rightarrow> sectionCounter \<times> sectionRec list" where
  "mapSections counter index [] = (counter, [])"
| "mapSections counter index (g # gs) =
     (case makeSection counter g index of
        (counter', s) \<Rightarrow>
          (case mapSections counter' (index + 1) gs of
             (counter'', ss) \<Rightarrow> (counter'', s # ss)))"


section \<open>The rendered page\<close>

text \<open>
  What the browser supplies for an element of the HTML namespace: its tag name (upper
  case, as the DOM reports it), its class tokens, its \<open>id\<close> (empty when it has none), the
  attributes and computed style that \<open>shouldSkipElement\<close> reads, its rendered \<open>innerText\<close>,
  its page-absolute rounded box (what \<open>getElementPosition\<close> computes from the client
  rectangle and the scroll offsets), and whether the node object can be returned by value
  from \<open>page.evaluate\<close>: it cannot when a script of the page has hung on the node a
  property whose reference chain is cyclic or too long to serialise.
\<close>

record elem =
  tagName :: string
  classTokens :: "string list"
  idAttr :: string
  roleAttr :: "string option"
  ariaHidden :: "string option"
  display :: string
  visibility :: string
  opacity :: string
  offsetWidth :: int
  offsetHeight :: int
  innerText :: string
  box :: position
  byValue :: bool

datatype node = Element elem "node list" | TextNode string | OtherNode

text \<open>An element together with its identity: its reference, its data, its \<open>childNodes\<close>.\<close>

type_synonym el = "nodeRef \<times> elem \<times> node list"

text \<open>The exceptions: a \<open>TypeError\<close> of the language, or an \<open>Error\<close> of the browser driver.\<close>

datatype error = TypeError string | Error string

definition className :: "elem \<Rightarrow> string" where
  "className e = joinSpace (classTokens e)"

fun textContent :: "node \<Rightarrow> string" where
  "textContent (TextNode s) = s"
| "textContent OtherNode = []"
| "textContent (Element e kids) = concat (map textContent kids)"

text \<open>
  \<open>subtree r n\<close> lists the element \<open>n\<close> (whose reference is \<open>r\<close>) and its element
  descendants in document order; \<open>subtrees r i ns\<close> does so for the child nodes \<open>ns\<close> of
  \<open>r\<close>, the first of which has index \<open>i\<close>.
\<close>

fun subtree :: "nodeRef \<Rightarrow> node \<Rightarrow> el list"
  and subtrees :: "nodeRef \<Rightarrow> nat \<Rightarrow> node list \<Rightarrow> el list" where
  "subtree r (Element e kids) = (r, e, kids) # subtrees r 0 kids"
| "subtree r (TextNode s) = []"
| "subtree r OtherNode = []"
| "subtrees r i [] = []"
| "subtrees r i (n # ns) = subtree (i # r) n @ subtrees r (Suc i) ns"

text \<open>\<open>element.querySelector\<close>: the first matching descendant in document order.\<close>

definition querySelector :: "(elem \<Rightarrow> bool) \<Rightarrow> el \<Rightarrow> el option" where
  "querySelector sel x =
     (case x of (r, e, kids) \<Rightarrow> find (\<lambda>d. sel (fst (snd d))) (subtrees r 0 kids))"

text \<open>\<open>document.querySelectorAll\<close>: every matching element of the document.\<close>

definition querySelectorAll :: "(elem \<Rightarrow> bool) \<Rightarrow> node \<Rightarrow> el list" where
  "querySelectorAll sel root = filter (\<lambda>d. sel (fst (snd d))) (subtree [] root)"

fun nodeAt :: "node \<Rightarrow> nat list \<Rightarrow> node option" where
  "nodeAt n [] = Some n"
| "nodeAt (Element e kids) (i # path) = (if i < length kids then nodeAt (kids ! i) path else None)"
| "nodeAt (TextNode s) (i # path) = None"
| "nodeAt OtherNode (i # path) = None"

definition elementAt :: "node \<Rightarrow> nodeRef \<Rightarrow> el option" where
  "elementAt root r =
     (case nodeAt root (rev r) of
        Some (Element e kids) \<Rightarrow> Some (r, e, kids)
      | _ \<Rightarrow> None)"

text \<open>\<open>element.children\<close>, for child nodes whose first index is \<open>i\<close>.\<close>

fun childElements :: "nodeRef \<Rightarrow> nat \<Rightarrow> node list \<Rightarrow> el list" where
  "childElements r i [] = []"
| "childElements r i (Element e kids # ns) = (i # r, e, kids) # childElements r (Suc i) ns"
| "childElements r i (TextNode s # ns) = childElements r (Suc i) ns"
| "childElements r i (OtherNode # ns) = childElements r (Suc i) ns"

text \<open>The parent of the root element is the document, which is not an element.\<close>

definition parentElement :: "node \<Rightarrow> el \<Rightarrow> el option" where
  "parentElement root x =
     (case fst x of [] \<Rightarrow> None | i # parent \<Rightarrow> elementAt root parent)"

definition nextElementSibling :: "node \<Rightarrow> el \<Rightarrow> el option" where
  "nextElementSibling root x =
     (case fst x of
        [] \<Rightarrow> None
      | i # parent \<Rightarrow>
          (case elementAt root parent of
             None \<Rightarrow> None
           | Some (r, e, siblings) \<Rightarrow>
               (case childElements parent (Suc i) (drop (Suc i) siblings) of
                  [] \<Rightarrow> None
                | s # rest \<Rightarrow> Some s)))"

text \<open>\<open>document.body\<close>: the first \<open>body\<close> or \<open>frameset\<close> child of the root element.\<close>

definition documentBody :: "node \<Rightarrow> el option" where
  "documentBody root =
     (case root of
        Element e kids \<Rightarrow>
          find (\<lambda>d. tagName (fst (snd d)) = ''BODY'' \<or> tagName (fst (snd d)) = ''FRAMESET'')
            (childElements [] 0 kids)
      | _ \<Rightarrow> None)"


section \<open>The collector\<close>

definition shouldSkipElement :: "elem \<Rightarrow> bool" where
  "shouldSkipElement e =
     (let tg = toLowerCase (tagName e);
          classes = toLowerCase (joinSpace (classTokens e));
          ident = toLowerCase (idAttr e);
          role = toLowerCase (case roleAttr e of None \<Rightarrow> [] | Some r \<Rightarrow> r)
      in
      if tg = ''nav'' \<or> role = ''navigation''
         \<or> includesStr classes ''nav'' \<or> includesStr classes ''menu''
         \<or> includesStr ident ''nav'' \<or> includesStr ident ''menu''
      then True
      else if tg \<in> set [''input'', ''select'', ''textarea'', ''label'', ''option'', ''fieldset'',
                        ''legend'']
      then True
      else if tg \<in> set [''script'', ''style'', ''noscript'', ''meta'', ''link'']
      then True
      else if display e = ''none'' \<or> visibility e = ''hidden'' \<or> opacity e = ''0''
         \<or> offsetWidth e = 0 \<or> offsetHeight e = 0
      then True
      else if ariaHidden e = Some ''true''
      then True
      else False)"

definition getElementPosition :: "elem \<Rightarrow> position" where
  "getElementPosition e = box e"

text \<open>
  \<open>getXPath\<close>. The index \<open>ix\<close> counts the element siblings with the same tag name before
  the element. The root element is never \<open>document.body\<close>, and its parent node is the
  document: the recursive call on the document finds no \<open>id\<close>, is not the body, and reads
  \<open>childNodes\<close> of the document's parent node, which is \<open>null\<close>.
\<close>

definition sameTagBefore :: "elem \<Rightarrow> node list \<Rightarrow> nat" where
  "sameTagBefore e preceding =
     length (filter (\<lambda>n. case n of Element s kids \<Rightarrow> tagName s = tagName e | _ \<Rightarrow> False)
               preceding)"

definition idXPath :: "elem \<Rightarrow> string" where
  "idXPath e = ''//*[@id='' @ [CHR 0x22] @ idAttr e @ [CHR 0x22] @ '']''"

definition nullChildNodes :: error where
  "nullChildNodes = TypeError ''Cannot read properties of null (reading childNodes)''"

fun getXPath :: "node \<Rightarrow> nodeRef \<Rightarrow> error + string" where
  "getXPath root [] =
     (case elementAt root [] of
        None \<Rightarrow> Inl nullChildNodes
      | Some (r, e, kids) \<Rightarrow> if idAttr e \<noteq> [] then Inr (idXPath e) else Inl nullChildNodes)"
| "getXPath root (i # parent) =
     (case elementAt root (i # parent) of
        None \<Rightarrow> Inl nullChildNodes
      | Some (r, e, kids) \<Rightarrow>
          if idAttr e \<noteq> [] then Inr (idXPath e)
          else if map_option fst (documentBody root) = Some (i # parent) then Inr ''/html/body''
          else
            (case elementAt root parent of
               None \<Rightarrow> Inl nullChildNodes
             | Some (pr, pe, siblings) \<Rightarrow>
                 (case getXPath root parent of
                    Inl err \<Rightarrow> Inl err
                  | Inr parentPath \<Rightarrow>
                      Inr (parentPath @ ''/'' @ toLowerCase (tagName e) @ ''[''
                           @ showNat (sameTagBefore e (take i siblings) + 1) @ '']''))))"

text \<open>
  The selectors, as predicates on an element. A class selector (\<open>.box\<close>, \<open>a.btn\<close>,
  \<open>a.button\<close>) compares class names exactly, and ASCII case-insensitively in a document
  in quirks mode; an attribute selector (\<open>[class*="card"]\<close>) looks for the characters as
  written in the value of the \<open>class\<close> attribute, which the model takes to be the tokens
  joined by single spaces.
\<close>

definition matchesClass :: "bool \<Rightarrow> string \<Rightarrow> elem \<Rightarrow> bool" where
  "matchesClass quirks name e =
     (if quirks then asciiLowerCase name \<in> set (map asciiLowerCase (classTokens e))
      else name \<in> set (classTokens e))"

definition headingSelector :: "elem \<Rightarrow> bool" where
  "headingSelector e = (tagName e \<in> set [''H1'', ''H2'', ''H3'', ''H4'', ''H5'', ''H6''])"

definition textSelector :: "elem \<Rightarrow> bool" where
  "textSelector e = (tagName e \<in> set [''P'', ''SPAN'', ''DIV''])"

definition buttonSelector :: "bool \<Rightarrow> elem \<Rightarrow> bool" where
  "buttonSelector quirks e =
     (tagName e = ''BUTTON''
      \<or> (tagName e = ''A'' \<and> matchesClass quirks ''btn'' e)
      \<or> (tagName e = ''A'' \<and> matchesClass quirks ''button'' e)
      \<or> includesStr (className e) ''btn''
      \<or> includesStr (className e) ''button'')"

definition cardSelector :: "bool \<Rightarrow> elem \<Rightarrow> bool" where
  "cardSelector quirks e =
     (includesStr (className e) ''card''
      \<or> includesStr (className e) ''service-item''
      \<or> includesStr (className e) ''feature''
      \<or> matchesClass quirks ''box'' e)"

definition isCardContainer :: "el \<Rightarrow> bool" where
  "isCardContainer x =
     (case x of (r, e, kids) \<Rightarrow>
        (let classes = toLowerCase (joinSpace (classTokens e));
             hasCardClass = (includesStr classes ''card''
                             \<or> includesStr classes ''service''
                             \<or> includesStr classes ''feature''
                             \<or> includesStr classes ''item''
                             \<or> includesStr classes ''box'');
             hasHeading = (querySelector headingSelector x \<noteq> None);
             hasText = (querySelector textSelector x \<noteq> None);
             hasMultipleElements = (length (childElements r 0 kids) \<ge> 2)
         in hasCardClass \<and> hasHeading \<and> hasText \<and> hasMultipleElements))"

definition hasOnlyTextNodes :: "node list \<Rightarrow> bool" where
  "hasOnlyTextNodes childNodes =
     list_all (\<lambda>n. case n of TextNode s \<Rightarrow> True
                             | Element c kids \<Rightarrow> shouldSkipElement c
                             | OtherNode \<Rightarrow> False) childNodes"

definition getExactVisibleText :: "el \<Rightarrow> string" where
  "getExactVisibleText x =
     (case x of (r, e, kids) \<Rightarrow>
        if tagName e = ''BUTTON'' \<or> tagName e = ''A''
        then normalizeSpaces (textContent (Element e kids))
        else if hasOnlyTextNodes kids then normalizeSpaces (innerText e)
        else [])"

text \<open>
  The sibling search of \<open>findAssociatedButton\<close>: \<open>while (sibling && count < 3)\<close>, with
  \<open>hops\<close> the iterations that are left.
\<close>

fun siblingButton :: "node \<Rightarrow> nat \<Rightarrow> el option \<Rightarrow> el option" where
  "siblingButton root 0 sibling = None"
| "siblingButton root (Suc hops) None = None"
| "siblingButton root (Suc hops) (Some s) =
     (if tagName (fst (snd s)) = ''BUTTON''
         \<or> (tagName (fst (snd s)) = ''A''
             \<and> (includesStr (className (fst (snd s))) ''btn''
                 \<or> includesStr (className (fst (snd s))) ''button''))
      then Some s
      else siblingButton root hops (nextElementSibling root s))"

definition findButton :: "node \<Rightarrow> bool \<Rightarrow> el \<Rightarrow> el option" where
  "findButton root quirks x =
     (case querySelector (buttonSelector quirks) x of
        Some b \<Rightarrow> Some b
      | None \<Rightarrow>
          (case (case parentElement root x of
                   None \<Rightarrow> None
                 | Some parent \<Rightarrow> querySelector (buttonSelector quirks) parent) of
             Some b \<Rightarrow> Some b
           | None \<Rightarrow> siblingButton root 3 (nextElementSibling root x)))"

definition noButton :: buttonInfo where
  "noButton = \<lparr> hasButton = False, buttonText = None, buttonElement = None \<rparr>"

definition findAssociatedButton :: "node \<Rightarrow> bool \<Rightarrow> nodeRef set \<Rightarrow> el \<Rightarrow> buttonInfo" where
  "findAssociatedButton root quirks processed x =
     (case findButton root quirks x of
        None \<Rightarrow> noButton
      | Some (br, be, bkids) \<Rightarrow>
          if br \<notin> processed
          then (let label = normalizeSpaces
                              (if innerText be \<noteq> [] then innerText be
                               else textContent (Element be bkids))
                in \<lparr> hasButton = True,
                     buttonText = (if label \<noteq> [] then Some label else None),
                     buttonElement = Some br \<rparr>)
          else noButton)"

text \<open>
  The shape that the claim about cards asks of a promoted node: a heading descendant, a
  \<open>p\<close>, \<open>span\<close> or \<open>div\<close> descendant, and at least two child elements.
\<close>

definition cardShape :: "el \<Rightarrow> bool" where
  "cardShape x =
     (case x of (r, e, kids) \<Rightarrow>
        querySelector headingSelector x \<noteq> None
        \<and> querySelector textSelector x \<noteq> None
        \<and> length (childElements r 0 kids) \<ge> 2)"

text \<open>
  The state of the \<open>page.evaluate\<close> callback: the array \<open>elements\<close> (called
  \<open>rawElements\<close> once it is returned) and the set \<open>processedNodes\<close>.
\<close>

record collector =
  rawElements :: "candidate list"
  processedNodes :: "nodeRef set"

definition buttonNodes :: "buttonInfo \<Rightarrow> nodeRef set" where
  "buttonNodes info = (case buttonElement info of None \<Rightarrow> {} | Some b \<Rightarrow> {b})"

text \<open>The callback of \<open>cardContainers.forEach\<close>.\<close>

definition processCard :: "node \<Rightarrow> bool \<Rightarrow> collector \<Rightarrow> el \<Rightarrow> error + collector" where
  "processCard root quirks st cardEl =
     (case cardEl of (r, e, kids) \<Rightarrow>
        if shouldSkipElement e \<or> r \<in> processedNodes st then Inr st
        else if isCardContainer cardEl then
          (let pos = getElementPosition e;
               info = findAssociatedButton root quirks (processedNodes st) cardEl;
               cardText = normalizeSpaces (innerText e);
               words = countWords cardText
           in if words \<ge> 4 then
                (case getXPath root r of
                   Inl err \<Rightarrow> Inl err
                 | Inr path \<Rightarrow>
                     Inr \<lparr> rawElements = rawElements st @
                             [\<lparr> element = r, tag = ''card'', text = cardText, wordCount = words,
                                isHeading = False, position = pos, xpath = path,
                                buttonInfo = info, classList = classTokens e,
                                elemId = (if idAttr e \<noteq> [] then Some (idAttr e) else None),
                                isCard = True \<rparr>],
                           processedNodes =
                             processedNodes st \<union> set (map fst (subtrees r 0 kids)) \<union> {r}
                               \<union> buttonNodes info \<rparr>)
              else Inr st)
        else Inr st)"

fun processCards :: "node \<Rightarrow> bool \<Rightarrow> collector \<Rightarrow> el list \<Rightarrow> error + collector" where
  "processCards root quirks st [] = Inr st"
| "processCards root quirks st (cardEl # cards) =
     (case processCard root quirks st cardEl of
        Inl err \<Rightarrow> Inl err
      | Inr st' \<Rightarrow> processCards root quirks st' cards)"

text \<open>
  When the card pass comes to a matched node with the collector in state \<open>st\<close>: the
  conditions of the claim about cards, and the guard of the source that the node has not
  been consumed.
\<close>

definition promotable :: "collector \<Rightarrow> el \<Rightarrow> bool" where
  "promotable st x =
     (case x of (r, e, kids) \<Rightarrow>
        \<not> shouldSkipElement e \<and> r \<notin> processedNodes st \<and> cardShape x
        \<and> countWords (normalizeSpaces (innerText e)) \<ge> 4)"


text \<open>
  How the collector state moves from \<open>st\<close> to \<open>st'\<close>: candidates are only appended,
  nodes are only added to \<open>processedNodes\<close>, and every appended candidate satisfies \<open>P\<close>,
  was not consumed before and is consumed afterwards.
\<close>

definition grows :: "(candidate \<Rightarrow> bool) \<Rightarrow> collector \<Rightarrow> collector \<Rightarrow> bool" where
  "grows P st st' =
     (\<exists>new. rawElements st' = rawElements st @ new
        \<and> processedNodes st \<subseteq> processedNodes st'
        \<and> distinct (map element new)
        \<and> (\<forall>c \<in> set new. P c \<and> element c \<notin> processedNodes st
                          \<and> element c \<in> processedNodes st'))"


definition headingTag :: "string \<Rightarrow> bool" where
  "headingTag tg = (tg \<in> set [''h1'', ''h2'', ''h3'', ''h4'', ''h5'', ''h6''])"

text \<open>The body of the \<open>while (node = walker.nextNode())\<close> loop.\<close>

definition visitNode :: "node \<Rightarrow> bool \<Rightarrow> collector \<Rightarrow> el \<Rightarrow> error + collector" where
  "visitNode root quirks st x =
     (case x of (r, e, kids) \<Rightarrow>
        if r \<in> processedNodes st then Inr st
        else
          (let tg = toLowerCase (tagName e);
               txt = getExactVisibleText x;
               words = countWords txt;
               heading = headingTag tg
           in if (heading \<and> txt \<noteq> []) \<or> words \<ge> 4 then
                (let pos = getElementPosition e;
                     info = findAssociatedButton root quirks (processedNodes st) x
                 in case getXPath root r of
                      Inl err \<Rightarrow> Inl err
                    | Inr path \<Rightarrow>
                        Inr \<lparr> rawElements = rawElements st @
                                [\<lparr> element = r, tag = tg, text = txt, wordCount = words,
                                   isHeading = heading, position = pos, xpath = path,
                                   buttonInfo = info, classList = classTokens e,
                                   elemId = (if idAttr e \<noteq> [] then Some (idAttr e) else None),
                                   isCard = False \<rparr>],
                              processedNodes =
                                insert r (processedNodes st) \<union> buttonNodes info \<rparr>)
              else Inr st))"

text \<open>
  The tree walker over \<open>document.body\<close> with \<open>NodeFilter.SHOW_ELEMENT\<close>. \<open>nextNode\<close>
  goes through the elements below the root in document order. \<open>acceptNode\<close> runs when the
  walker reaches an element, on the set \<open>processedNodes\<close> of that moment; a rejected
  element hides its whole subtree; an accepted one is handed to the loop body, and the
  walker then descends from it without filtering it again. \<open>walk root st parent i ns\<close>
  walks the child nodes \<open>ns\<close> of \<open>parent\<close>, the first of which has index \<open>i\<close>.
\<close>

fun walk ::
    "node \<Rightarrow> bool \<Rightarrow> collector \<Rightarrow> nodeRef \<Rightarrow> nat \<Rightarrow> node list \<Rightarrow> error + collector" where
  "walk root quirks st parent i [] = Inr st"
| "walk root quirks st parent i (Element e kids # siblings) =
     (if shouldSkipElement e \<or> (i # parent) \<in> processedNodes st
      then walk root quirks st parent (Suc i) siblings
      else
        (case visitNode root quirks st (i # parent, e, kids) of
           Inl err \<Rightarrow> Inl err
         | Inr st' \<Rightarrow>
             (case walk root quirks st' (i # parent) 0 kids of
                Inl err \<Rightarrow> Inl err
              | Inr st'' \<Rightarrow> walk root quirks st'' parent (Suc i) siblings)))"
| "walk root quirks st parent i (TextNode s # siblings) =
     walk root quirks st parent (Suc i) siblings"
| "walk root quirks st parent i (OtherNode # siblings) =
     walk root quirks st parent (Suc i) siblings"

text \<open>The state the callback starts from.\<close>

definition emptyCollector :: collector where
  "emptyCollector = \<lparr> rawElements = [], processedNodes = {} \<rparr>"

definition noTreeRoot :: error where
  "noTreeRoot = TypeError ''createTreeWalker: parameter 1 is not of type Node''"

text \<open>
  The callback of \<open>page.evaluate\<close>, run on the root element of a document that is in
  quirks mode or not: the card pass, the walk, the sort. An exception of the callback
  rejects the promise that \<open>scrapeWebsite\<close> awaits.
\<close>

definition extractElements :: "node \<Rightarrow> bool \<Rightarrow> error + candidate list" where
  "extractElements root quirks =
     (case processCards root quirks emptyCollector
             (querySelectorAll (cardSelector quirks) root) of
        Inl err \<Rightarrow> Inl err
      | Inr st \<Rightarrow>
          (case documentBody root of
             None \<Rightarrow> Inl noTreeRoot
           | Some (b, be, bkids) \<Rightarrow>
               (case walk root quirks st b 0 bkids of
                  Inl err \<Rightarrow> Inl err
                | Inr st' \<Rightarrow> Inr (sortBy comparePosition (rawElements st')))))"


section \<open>The entry point\<close>

text \<open>
  The rendered document that the callback of \<open>page.evaluate\<close> runs in: its title, whether
  it is in quirks mode (\<open>document.compatMode\<close> is \<open>BackCompat\<close>), and its root element.
\<close>

record renderedPage =
  pageTitle :: string
  quirksMode :: bool
  documentElement :: node

record results =
  url :: string
  title :: string
  sections :: "sectionRec list"
  errors :: "error list"

text \<open>
  \<open>page.evaluate\<close> returns the value of the callback by value. The array holds, for each
  candidate, the node objects \<open>element\<close> and \<open>buttonInfo.buttonElement\<close>; when one of them
  cannot be returned by value the call resolves to \<open>undefined\<close>, which is \<open>None\<close> here.
  Otherwise a node arrives as an object without properties; the model keeps its reference
  in the candidate, which nothing after the extraction reads.
\<close>

definition nodeByValue :: "node \<Rightarrow> nodeRef \<Rightarrow> bool" where
  "nodeByValue root r = (case elementAt root r of None \<Rightarrow> True | Some (q, e, kids) \<Rightarrow> byValue e)"

definition returnable :: "node \<Rightarrow> candidate \<Rightarrow> bool" where
  "returnable root c =
     (nodeByValue root (element c)
      \<and> (case buttonElement (buttonInfo c) of None \<Rightarrow> True | Some b \<Rightarrow> nodeByValue root b))"

definition pageEvaluate :: "renderedPage \<Rightarrow> error + candidate list option" where
  "pageEvaluate page =
     (case extractElements (documentElement page) (quirksMode page) of
        Inl err \<Rightarrow> Inl err
      | Inr found \<Rightarrow>
          if list_all (returnable (documentElement page)) found then Inr (Some found)
          else Inr None)"

definition undefinedLength :: error where
  "undefinedLength = TypeError ''Cannot read properties of undefined (reading length)''"

text \<open>
  What one call of \<open>scrapeWebsite\<close> meets outside its own code: whether
  \<open>this.browser.newPage()\<close> fails (the browser is not started, or has gone); what the
  steps from \<open>setViewport\<close> to \<open>autoScroll\<close> end in, the failure of one of them or the
  rendered page; what the other calls on the same scraper object do to
  \<open>this.sectionCounter\<close> while this call waits between \<open>resetCounters\<close> and the assembly
  of the sections (\<open>src/server.js\<close> serves all requests with one scraper); and whether
  \<open>page.close()\<close> fails.
\<close>

record session =
  newPageFailure :: "error option"
  loaded :: "error + renderedPage"
  meanwhile :: "sectionCounter \<Rightarrow> sectionCounter"
  closeFailure :: "error option"

text \<open>
  The body of the \<open>try\<close> block with its \<open>catch\<close> clause, from the counters as they are
  when the assembly starts. The \<open>catch\<close> clause pushes the error on \<open>results.errors\<close>;
  \<open>results.sections\<close> is assigned once, after the whole \<open>map\<close>; the title is assigned
  before the extraction.
\<close>

definition tryBlock ::
    "sectionCounter \<Rightarrow> string \<Rightarrow> error + renderedPage \<Rightarrow> sectionCounter \<times> results" where
  "tryBlock counter address outcome =
     (let results0 = \<lparr> url = address, title = [], sections = [], errors = [] \<rparr>
      in case outcome of
           Inl err \<Rightarrow> (counter, results0 \<lparr> errors := errors results0 @ [err] \<rparr>)
         | Inr page \<Rightarrow>
             (case pageEvaluate page of
                Inl err \<Rightarrow>
                  (counter,
                   results0 \<lparr> title := pageTitle page, errors := errors results0 @ [err] \<rparr>)
              | Inr None \<Rightarrow>
                  (counter,
                   results0 \<lparr> title := pageTitle page,
                              errors := errors results0 @ [undefinedLength] \<rparr>)
              | Inr (Some raw) \<Rightarrow>
                  (case mapSections counter 0 (groupRelatedContent raw) of
                     (counter', secs) \<Rightarrow>
                       (counter', results0 \<lparr> title := pageTitle page, sections := secs \<rparr>))))"

text \<open>
  \<open>scrapeWebsite\<close>. The counters of the scraper object are passed in and returned. An
  exception that leaves the function is \<open>Inl\<close>: \<open>newPage\<close> is awaited before
  \<open>resetCounters\<close> and before the \<open>try\<close>, and \<open>page.close\<close> is awaited in the \<open>finally\<close>
  clause, so a failure of either is not caught.
\<close>

definition scrapeWebsite ::
    "sectionCounter \<Rightarrow> string \<Rightarrow> session \<Rightarrow> sectionCounter \<times> (error + results)" where
  "scrapeWebsite counter address s =
     (case newPageFailure s of
        Some err \<Rightarrow> (counter, Inl err)
      | None \<Rightarrow>
          (case tryBlock (meanwhile s (resetCounters counter)) address (loaded s) of
             (counter', res) \<Rightarrow>
               (case closeFailure s of
                  Some err \<Rightarrow> (counter', Inl err)
                | None \<Rightarrow> (counter', Inr res))))"

text \<open>A call that no other call interleaves with and whose page opens and closes.\<close>

definition quietSession :: "renderedPage \<Rightarrow> session" where
  "quietSession page =
     \<lparr> newPageFailure = None, loaded = Inr page, meanwhile = (\<lambda>counter. counter),
       closeFailure = None \<rparr>"

text \<open>A document in standards mode with an empty title.\<close>

definition standardsPage :: "node \<Rightarrow> renderedPage" where
  "standardsPage root = \<lparr> pageTitle = [], quirksMode = False, documentElement = root \<rparr>"

text \<open>A rendered, visible element without \<open>id\<close> and without properties added by scripts,
  used to write pages down.\<close>

definition visibleElem :: "string \<Rightarrow> string list \<Rightarrow> string \<Rightarrow> int \<Rightarrow> int \<Rightarrow> elem" where
  "visibleElem tg classes rendered topEdge bottomEdge =
     \<lparr> tagName = tg, classTokens = classes, idAttr = [], roleAttr = None, ariaHidden = None,
       display = ''block'', visibility = ''visible'', opacity = ''1'',
       offsetWidth = 800, offsetHeight = bottomEdge - topEdge, innerText = rendered,
       box = \<lparr> top_px = topEdge, left_px = 0, bottom_px = bottomEdge, right_px = 800,
               width_px = 800, height_px = bottomEdge - topEdge \<rparr>,
       byValue = True \<rparr>"


section \<open>Sample inputs\<close>

definition sampleCandidate ::
    "nodeRef \<Rightarrow> string \<Rightarrow> string \<Rightarrow> int \<Rightarrow> int \<Rightarrow> int \<Rightarrow> buttonInfo \<Rightarrow> candidate" where
  "sampleCandidate r tg txt topEdge bottomEdge leftEdge info =
     \<lparr> element = r, tag = tg, text = txt, wordCount = countWords txt, isHeading = headingTag tg,
       position = \<lparr> top_px = topEdge, left_px = leftEdge, bottom_px = bottomEdge,
                    right_px = leftEdge + 400, width_px = 400,
                    height_px = bottomEdge - topEdge \<rparr>,
       xpath = ''/html/body'', buttonInfo = info, classList = [], elemId = None,
       isCard = False \<rparr>"




text \<open>Three service paragraphs with another paragraph between them.\<close>

definition threeServices :: "group list" where
  "threeServices =
     [newGroup (sampleCandidate [0, 0] ''p'' ''Residential junk removal in town'' 900 960 0 noButton),
      newGroup (sampleCandidate [1, 0] ''p'' ''Commercial junk removal in town'' 1000 1060 0 noButton),
      newGroup (sampleCandidate [2, 0] ''p'' ''We recycle what we can'' 1100 1160 0 noButton),
      newGroup (sampleCandidate [3, 0] ''p'' ''Estate cleanouts done with care'' 1200 1260 0 noButton)]"


text \<open>A paragraph followed by a button that renders an icon and no text.\<close>

definition iconButtonPage :: node where
  "iconButtonPage =
     Element (visibleElem ''HTML'' [] ''We haul junk away today'' 0 100)
       [Element (visibleElem ''BODY'' [] ''We haul junk away today'' 0 100)
          [Element (visibleElem ''P'' [] ''We haul junk away today'' 0 40)
             [TextNode ''We haul junk away today''],
           Element (visibleElem ''BUTTON'' [] [] 50 90) []]]"




text \<open>A link whose label sits in a \<open>span\<close>: the text is rendered once.\<close>

definition linkPage :: node where
  "linkPage =
     Element (visibleElem ''HTML'' [] ''Call us today now'' 0 40)
       [Element (visibleElem ''BODY'' [] ''Call us today now'' 0 40)
          [Element (visibleElem ''A'' [] ''Call us today now'' 0 40)
             [Element (visibleElem ''SPAN'' [] ''Call us today now'' 0 40)
                [TextNode ''Call us today now'']]]]"

text \<open>A page whose root element carries a class that the card selector matches.\<close>

definition featurePage :: node where
  "featurePage =
     Element (visibleElem ''HTML'' [''feature-page''] ''Fast Removal We haul junk away today'' 0 100)
       [Element (visibleElem ''HEAD'' [] [] 0 0) [],
        Element (visibleElem ''BODY'' [] ''Fast Removal We haul junk away today'' 0 100)
          [Element (visibleElem ''H2'' [] ''Fast Removal'' 0 40) [TextNode ''Fast Removal''],
           Element (visibleElem ''P'' [] ''We haul junk away today'' 50 90)
             [TextNode ''We haul junk away today'']]]"



text \<open>The paragraph of \<open>iconButtonPage\<close>.\<close>

definition iconParagraph :: el where
  "iconParagraph =
     ([0, 0], visibleElem ''P'' [] ''We haul junk away today'' 0 40,
      [TextNode ''We haul junk away today''])"




text \<open>
  Three candidates whose rows chain: the first is within 50 pixels of each of the other
  two, which are 80 pixels apart. The first and the third compare equal.
\<close>

definition chainFirst :: candidate where
  "chainFirst = sampleCandidate [0, 0] ''p'' ''Same day junk removal service'' 40 60 50 noButton"

definition chainSecond :: candidate where
  "chainSecond = sampleCandidate [1, 0] ''p'' ''Licensed and insured local crew'' 80 100 0 noButton"

definition chainThird :: candidate where
  "chainThird = sampleCandidate [2, 0] ''p'' ''Free estimates over the phone'' 0 20 50 noButton"

text \<open>A page with the four paragraphs of \<open>threeServices\<close>.\<close>

definition servicesPage :: node where
  "servicesPage =
     Element (visibleElem ''HTML'' [] [] 0 1300)
       [Element (visibleElem ''BODY'' [] [] 0 1300)
          [Element (visibleElem ''P'' [] ''Residential junk removal in town'' 900 960)
             [TextNode ''Residential junk removal in town''],
           Element (visibleElem ''P'' [] ''Commercial junk removal in town'' 1000 1060)
             [TextNode ''Commercial junk removal in town''],
           Element (visibleElem ''P'' [] ''We recycle what we can'' 1100 1160)
             [TextNode ''We recycle what we can''],
           Element (visibleElem ''P'' [] ''Estate cleanouts done with care'' 1200 1260)
             [TextNode ''Estate cleanouts done with care'']]]"

text \<open>
  A call on \<open>servicesPage\<close> during which a second call on the same scraper object, for a
  page that gives the groups \<open>threeServices\<close>, resets the counters and assembles its
  sections.
\<close>

definition overlappedSession :: session where
  "overlappedSession =
     \<lparr> newPageFailure = None, loaded = Inr (standardsPage servicesPage),
       meanwhile = (\<lambda>counter. fst (mapSections (resetCounters counter) 0 threeServices)),
       closeFailure = None \<rparr>"

text \<open>
  A call during which the browser goes away: the navigation fails, and so does
  \<open>page.close()\<close>, which finds the connection closed.
\<close>

definition browserDisconnected :: error where
  "browserDisconnected = Error ''Navigation failed because browser has disconnected!''"

definition connectionClosed :: error where
  "connectionClosed =
     Error ''Protocol error: Connection closed. Most likely the page has been closed.''"

definition crashedSession :: session where
  "crashedSession =
     \<lparr> newPageFailure = None, loaded = Inl browserDisconnected,
       meanwhile = (\<lambda>counter. counter), closeFailure = Some connectionClosed \<rparr>"

text \<open>A call on a scraper whose browser has gone before the page is opened.\<close>

definition targetClosed :: error where
  "targetClosed = Error ''Protocol error (Target.createTarget): Target closed''"

definition closedBrowserSession :: session where
  "closedBrowserSession =
     \<lparr> newPageFailure = Some targetClosed, loaded = Inr (standardsPage servicesPage),
       meanwhile = (\<lambda>counter. counter), closeFailure = None \<rparr>"

text \<open>
  The page of \<open>iconButtonPage\<close> when a script has hung on the paragraph a property that
  cannot be returned by value.
\<close>

definition expandoPage :: node where
  "expandoPage =
     Element (visibleElem ''HTML'' [] ''We haul junk away today'' 0 100)
       [Element (visibleElem ''BODY'' [] ''We haul junk away today'' 0 100)
          [Element ((visibleElem ''P'' [] ''We haul junk away today'' 0 40) \<lparr> byValue := False \<rparr>)
             [TextNode ''We haul junk away today''],
           Element (visibleElem ''BUTTON'' [] [] 50 90) []]]"

text \<open>A card whose class is written \<open>BOX\<close>, and a text with no-break spaces.\<close>

definition upperBoxPage :: node where
  "upperBoxPage =
     Element (visibleElem ''HTML'' [] ''Sheds We take old sheds'' 0 100)
       [Element (visibleElem ''BODY'' [] ''Sheds We take old sheds'' 0 100)
          [Element (visibleElem ''DIV'' [''BOX''] ''Sheds We take old sheds'' 0 100)
             [Element (visibleElem ''H3'' [] ''Sheds'' 0 40) [TextNode ''Sheds''],
              Element (visibleElem ''P'' [] ''We take old sheds'' 50 90)
                [TextNode ''We take old sheds'']]]]"

definition noBreakText :: string where
  "noBreakText = [CHR 0xA0] @ ''We'' @ [CHR 0xA0] @ ''haul junk'' @ [CHR 0xA0] @ ''away'' @ [CHR 0xA0]"

section \<open>Facts about the grouper\<close>
















section \<open>Facts about the assembler\<close>

lemma mapSections_Cons:
  "snd (mapSections counter index (g # gs)) =
     snd (makeSection counter g index)
       # snd (mapSections (fst (makeSection counter g index)) (index + 1) gs)"
  by (simp split: prod.splits)

lemma makeSection_fields:
  "fst (makeSection counter g index) =
     counter (determineSectionType g := counter (determineSectionType g) + 1)"
  "sectionType (snd (makeSection counter g index)) = determineSectionType g"
  "section_text (snd (makeSection counter g index)) = combinedText g"
  "charCount (snd (makeSection counter g index)) = length (combinedText g)"
  "sectionId (snd (makeSection counter g index)) =
     typeName (determineSectionType g) @ ''-'' @ showNat (counter (determineSectionType g) + 1)"
  "section_hasButton (snd (makeSection counter g index)) = group_hasButton g"
  "section_buttonText (snd (makeSection counter g index)) = group_buttonText g"
  by (simp_all add: makeSection_def Let_def)

lemma mapSections_texts:
  "map section_text (snd (mapSections counter index gs)) = map combinedText gs"
  by (induction gs arbitrary: counter index)
     (auto simp: mapSections_Cons makeSection_fields simp del: mapSections.simps(2))

lemma mapSections_charCount:
  "map charCount (snd (mapSections counter index gs)) = map (\<lambda>g. length (combinedText g)) gs"
  by (induction gs arbitrary: counter index)
     (auto simp: mapSections_Cons makeSection_fields simp del: mapSections.simps(2))

lemma mapSections_charCount_text:
  "s \<in> set (snd (mapSections counter index gs)) \<Longrightarrow> charCount s = length (section_text s)"
  by (induction gs arbitrary: counter index)
     (auto simp: mapSections_Cons makeSection_fields simp del: mapSections.simps(2))

lemma tryBlock_sections:
  "sections (snd (tryBlock counter address outcome)) =
     (case outcome of
        Inl err \<Rightarrow> []
      | Inr page \<Rightarrow>
          (case pageEvaluate page of
             Inl err \<Rightarrow> []
           | Inr None \<Rightarrow> []
           | Inr (Some raw) \<Rightarrow> snd (mapSections counter 0 (groupRelatedContent raw))))"
  by (simp add: tryBlock_def Let_def split: sum.splits option.splits prod.splits)

lemma tryBlock_errors:
  "errors (snd (tryBlock counter address outcome)) =
     (case outcome of
        Inl err \<Rightarrow> [err]
      | Inr page \<Rightarrow>
          (case pageEvaluate page of
             Inl err \<Rightarrow> [err]
           | Inr None \<Rightarrow> [undefinedLength]
           | Inr (Some raw) \<Rightarrow> []))"
  by (simp add: tryBlock_def Let_def split: sum.splits option.splits prod.splits)

lemma scrapeWebsite_returned:
  "snd (scrapeWebsite counter address s) = Inr r \<longleftrightarrow>
     newPageFailure s = None \<and> closeFailure s = None
     \<and> r = snd (tryBlock (meanwhile s (resetCounters counter)) address (loaded s))"
  by (auto simp: scrapeWebsite_def split: option.splits prod.splits)

lemma scrapeWebsite_thrown:
  "snd (scrapeWebsite counter address s) = Inl err \<longleftrightarrow>
     newPageFailure s = Some err \<or> (newPageFailure s = None \<and> closeFailure s = Some err)"
  by (auto simp: scrapeWebsite_def split: option.splits prod.splits)

lemma mapSections_ids:
  "map sectionId (filter (\<lambda>s. sectionType s = t) (snd (mapSections counter index gs))) =
     map (\<lambda>k. typeName t @ ''-'' @ showNat k)
       [counter t + 1 ..< counter t + 1 + count_list (map determineSectionType gs) t]"
proof (induction gs arbitrary: counter index)
  case Nil
  then show ?case by simp
next
  case (Cons g gs)
  define ty where "ty = determineSectionType g"
  define c' where "c' = fst (makeSection counter g index)"
  define s where "s = snd (makeSection counter g index)"
  have sty: "sectionType s = ty"
    and sid: "sectionId s = typeName ty @ ''-'' @ showNat (counter ty + 1)"
    and c't: "c' ty = counter ty + 1"
    and c'o: "\<And>u. u \<noteq> ty \<Longrightarrow> c' u = counter u"
    by (simp_all add: s_def c'_def ty_def makeSection_fields)
  have snd_eq: "snd (mapSections counter index (g # gs)) = s # snd (mapSections c' (index + 1) gs)"
    unfolding s_def c'_def by (rule mapSections_Cons)
  have IH: "map sectionId (filter (\<lambda>s. sectionType s = t) (snd (mapSections c' (index + 1) gs))) =
     map (\<lambda>k. typeName t @ ''-'' @ showNat k)
       [c' t + 1 ..< c' t + 1 + count_list (map determineSectionType gs) t]"
    by (rule Cons.IH)
  show ?case
  proof (cases "ty = t")
    case True
    have "[counter t + 1 ..< counter t + 1 + count_list (map determineSectionType (g # gs)) t] =
          (counter t + 1) # [c' t + 1 ..< c' t + 1 + count_list (map determineSectionType gs) t]"
      using True c't by (simp add: ty_def upt_conv_Cons del: upt_Suc)
    then show ?thesis
      unfolding snd_eq using True sty sid IH by simp
  next
    case False
    then have "count_list (map determineSectionType (g # gs)) t =
        count_list (map determineSectionType gs) t"
      by (simp add: ty_def)
    then show ?thesis
      unfolding snd_eq using False sty IH c'o [of t] by simp
  qed
qed

text \<open>The counters after the assembly: each category has gone up by its number of groups.\<close>

lemma mapSections_counter:
  "fst (mapSections counter index gs) t = counter t + count_list (map determineSectionType gs) t"
proof (induction gs arbitrary: counter index)
  case Nil
  then show ?case by simp
next
  case (Cons g gs)
  have "fst (mapSections counter index (g # gs)) =
          fst (mapSections (fst (makeSection counter g index)) (index + 1) gs)"
    by (simp split: prod.splits)
  then show ?case using Cons.IH by (simp add: makeSection_fields)
qed

lemma mapSections_count:
  "length (filter (\<lambda>x. sectionType x = t) (snd (mapSections counter index gs))) =
     count_list (map determineSectionType gs) t"
  by (induction gs arbitrary: counter index)
     (auto simp: mapSections_Cons makeSection_fields simp del: mapSections.simps(2))

section \<open>Facts about the classifier\<close>




section \<open>Facts about the sort\<close>
























section \<open>Facts about the locator and the entry point\<close>











lemma getXPath_root_element:
  "elementAt root [] = Some (q, e, kids) \<Longrightarrow> idAttr e = [] \<Longrightarrow>
   getXPath root [] = Inl nullChildNodes"
  by simp

lemma empty_label_button:
  assumes "findButton root quirks x = Some (br, be, bkids)" "br \<notin> processed"
    "normalizeSpaces (if innerText be \<noteq> [] then innerText be else textContent (Element be bkids)) = []"
  shows "findAssociatedButton root quirks processed x =
           \<lparr> hasButton = True, buttonText = None, buttonElement = Some br \<rparr>"
  using assms by (simp add: findAssociatedButton_def Let_def)

lemma mapSections_made:
  "s \<in> set (snd (mapSections counter index gs)) \<Longrightarrow>
   \<exists>c g i. g \<in> set gs \<and> s = snd (makeSection c g i)"
proof (induction gs arbitrary: counter index)
  case Nil
  then show ?case by simp
next
  case (Cons g gs)
  then show ?case
    by (simp add: mapSections_Cons del: mapSections.simps(2)) (metis list.set_intros)
qed


section \<open>Facts about the collector\<close>





































lemma grows_processed:
  assumes "grows P st st'"
  shows "processedNodes st \<subseteq> processedNodes st'"
  using assms unfolding grows_def by auto















section \<open>Evaluations of the sample inputs\<close>

lemma iconButtonPage_result:
  "snd (scrapeWebsite counter address (quietSession (standardsPage iconButtonPage))) =
     Inr \<lparr> url = address, title = [],
           sections =
             [\<lparr> sectionId = ''other-1'', sectionType = Other, section_element = ''p'',
                section_text = ''We haul junk away today'', charCount = 23,
                parentContainer = ''section'', section_xpath = ''/html/body/p[1]'', order = 1,
                section_keywords = [], section_hasButton = True, section_buttonText = None \<rparr>],
           errors = [] \<rparr>"
  by code_simp

lemma expandoPage_result:
  "snd (scrapeWebsite counter address (quietSession (standardsPage expandoPage))) =
     Inr \<lparr> url = address, title = [], sections = [], errors = [undefinedLength] \<rparr>"
  by code_simp

lemma featurePage_result:
  "snd (scrapeWebsite counter address (quietSession (standardsPage featurePage))) =
     Inr \<lparr> url = address, title = [], sections = [], errors = [nullChildNodes] \<rparr>"
  by code_simp

lemma linkPage_result:
  "map_sum id (map (\<lambda>c. (tag c, text c))) (extractElements linkPage False) =
     Inr [(''a'', ''Call us today now''), (''span'', ''Call us today now'')]"
  "map_sum id (map (\<lambda>c. (tag c, text c))) (extractElements linkPage True) =
     Inr [(''a'', ''Call us today now''), (''span'', ''Call us today now'')]"
  "map_sum id (\<lambda>r. map section_text (sections r))
     (snd (scrapeWebsite counter address
        (quietSession \<lparr> pageTitle = heading, quirksMode = False, documentElement = linkPage \<rparr>))) =
     Inr [''Call us today now'', ''Call us today now'']"
  "map_sum id (\<lambda>r. map section_text (sections r))
     (snd (scrapeWebsite counter address
        (quietSession \<lparr> pageTitle = heading, quirksMode = True, documentElement = linkPage \<rparr>))) =
     Inr [''Call us today now'', ''Call us today now'']"
  by code_simp+

lemma failed_sessions:
  "snd (scrapeWebsite counter address crashedSession) = Inl connectionClosed"
  "snd (scrapeWebsite counter address closedBrowserSession) = Inl targetClosed"
  by code_simp+

lemma closedBrowser_counters:
  "fst (scrapeWebsite counter address closedBrowserSession) = counter"
  by (simp add: scrapeWebsite_def closedBrowserSession_def)

lemma servicesPage_ids:
  "map_sum id (\<lambda>r. map sectionId (sections r))
     (snd (scrapeWebsite counter address overlappedSession)) =
     Inr [''service-4'', ''service-5'', ''other-2'', ''service-6'']"
  "map_sum id (\<lambda>r. map sectionId (sections r))
     (snd (scrapeWebsite counter address (quietSession (standardsPage servicesPage)))) =
     Inr [''service-1'', ''service-2'', ''other-1'', ''service-3'']"
  "map_sum id (\<lambda>r. map sectionType (sections r))
     (snd (scrapeWebsite counter address (quietSession (standardsPage servicesPage)))) =
     Inr [Service, Service, Other, Service]"
  by code_simp+

lemma threeServices_types:
  "map determineSectionType threeServices = [Service, Service, Other, Service]"
  by code_simp

lemma showNat_digits:
  "showNat (Suc 0) = ''1''" "showNat 1 = ''1''" "showNat 2 = ''2''" "showNat 3 = ''3''"
  by code_simp+




lemma chainSample_sorted:
  "sortBy comparePosition [chainFirst, chainSecond, chainThird] =
     [chainThird, chainSecond, chainFirst]"
  "comparePosition chainFirst chainThird = 0"
  "comparePosition chainThird chainSecond < 0" "comparePosition chainSecond chainFirst < 0"
  "chainFirst \<noteq> chainThird"
  by code_simp+


lemma featurePage_facts:
  "elementAt featurePage [0, 1] \<noteq> None"
  "map_option fst (documentBody featurePage) = Some [1]"
  "getXPath featurePage [0, 1] = Inr ''/html/body/h2[1]''"
  "map_option (\<lambda>x. idAttr (fst (snd x))) (elementAt featurePage []) = Some []"
  "getXPath featurePage [] = Inl nullChildNodes"
  "extractElements featurePage False = Inl nullChildNodes"
  "extractElements featurePage True = Inl nullChildNodes"
  by code_simp+


lemma featurePage_root:
  "cardSelector False (fst (snd (the (elementAt featurePage []))))"
  "promotable emptyCollector (the (elementAt featurePage []))"
  "fst (the (elementAt featurePage [])) = []"
  by code_simp+

lemma iconButton_facts:
  "findButton iconButtonPage False iconParagraph =
     Some ([1, 0], visibleElem ''BUTTON'' [] [] 50 90, [])"
  "[1, 0] \<notin> ({} :: nodeRef set)"
  "normalizeSpaces
     (if innerText (visibleElem ''BUTTON'' [] [] 50 90) \<noteq> []
      then innerText (visibleElem ''BUTTON'' [] [] 50 90)
      else textContent (Element (visibleElem ''BUTTON'' [] [] 50 90) [])) = []"
  by code_simp+



text \<open>
  A class written \<open>BOX\<close> is matched by \<open>.box\<close> in quirks mode only; no-break spaces
  separate words and are trimmed.
\<close>

lemma upperBoxPage_facts:
  "map_sum id (map (\<lambda>c. (element c, tag c, text c))) (extractElements upperBoxPage True) =
     Inr [([0, 0], ''card'', ''Sheds We take old sheds'')]"
  "map_sum id (map (\<lambda>c. (element c, tag c, text c))) (extractElements upperBoxPage False) =
     Inr [([0, 0, 0], ''h3'', ''Sheds''), ([1, 0, 0], ''p'', ''We take old sheds'')]"
  by code_simp+

lemma noBreakText_facts:
  "countWords noBreakText = 4"
  "trim noBreakText = ''We'' @ [CHR 0xA0] @ ''haul junk'' @ [CHR 0xA0] @ ''away''"
  by code_simp+


section \<open>The claims\<close>

text \<open>
  Claim C1, evaluated where the code departs from it. An exception raised inside the
  \<open>try\<close> block (by a navigation step, by the collector, or by reading the length of a
  result that could not be returned by value) is caught: the result then has that one
  error and no sections, and every section of a result is a complete record built by
  \<open>makeSection\<close>. But \<open>scrapeWebsite\<close> throws past its boundary, and returns no result,
  exactly when \<open>this.browser.newPage()\<close> fails, which is awaited before the \<open>try\<close>, or
  \<open>page.close()\<close> fails, which is awaited in the \<open>finally\<close> clause. When the browser
  goes away during the navigation, the navigation error is caught and the error of
  \<open>page.close()\<close> leaves the function; when the browser has gone before the call, the
  error of \<open>newPage\<close> does.
\<close>

theorem scrapeWebsite_throws_past_boundary:
  "(snd (scrapeWebsite counter address s) = Inl err \<longleftrightarrow>
      newPageFailure s = Some err \<or> (newPageFailure s = None \<and> closeFailure s = Some err))
   \<and> (newPageFailure s = None \<and> closeFailure s = None \<longrightarrow>
        (\<exists>r. snd (scrapeWebsite counter address s) = Inr r
           \<and> (errors r = [] \<or> (\<exists>e. errors r = [e] \<and> sections r = []))
           \<and> (\<forall>x \<in> set (sections r). \<exists>c g i. x = snd (makeSection c g i))))
   \<and> snd (scrapeWebsite counter address crashedSession) = Inl connectionClosed
   \<and> snd (scrapeWebsite counter address closedBrowserSession) = Inl targetClosed"
proof (intro conjI impI)
  show "snd (scrapeWebsite counter address s) = Inl err \<longleftrightarrow>
      newPageFailure s = Some err \<or> (newPageFailure s = None \<and> closeFailure s = Some err)"
    by (rule scrapeWebsite_thrown)
next
  assume ok: "newPageFailure s = None \<and> closeFailure s = None"
  define c0 where "c0 = meanwhile s (resetCounters counter)"
  define r where "r = snd (tryBlock c0 address (loaded s))"
  have ret: "snd (scrapeWebsite counter address s) = Inr r"
    using ok by (simp add: scrapeWebsite_returned r_def c0_def)
  have errs: "errors r = [] \<or> (\<exists>e. errors r = [e] \<and> sections r = [])"
    unfolding r_def tryBlock_errors tryBlock_sections
    by (simp split: sum.splits option.splits)
  have made: "\<forall>x \<in> set (sections r). \<exists>c g i. x = snd (makeSection c g i)"
  proof
    fix x assume "x \<in> set (sections r)"
    then obtain raw where "x \<in> set (snd (mapSections c0 0 (groupRelatedContent raw)))"
      unfolding r_def tryBlock_sections by (auto split: sum.splits option.splits)
    from mapSections_made [OF this] show "\<exists>c g i. x = snd (makeSection c g i)" by blast
  qed
  show "\<exists>r. snd (scrapeWebsite counter address s) = Inr r
           \<and> (errors r = [] \<or> (\<exists>e. errors r = [e] \<and> sections r = []))
           \<and> (\<forall>x \<in> set (sections r). \<exists>c g i. x = snd (makeSection c g i))"
    using ret errs made by blast
next
  show "snd (scrapeWebsite counter address crashedSession) = Inl connectionClosed"
    by (rule failed_sessions(1))
next
  show "snd (scrapeWebsite counter address closedBrowserSession) = Inl targetClosed"
    by (rule failed_sessions(2))
qed

theorem scrapeWebsite_throws_past_boundary_witness:
  "newPageFailure (quietSession (standardsPage featurePage)) = None
   \<and> closeFailure (quietSession (standardsPage featurePage)) = None
   \<and> (\<exists>r. snd (scrapeWebsite (\<lambda>k. 0) ''u'' (quietSession (standardsPage featurePage))) = Inr r
         \<and> errors r = [nullChildNodes] \<and> sections r = [])
   \<and> snd (scrapeWebsite (\<lambda>k. 0) ''u'' closedBrowserSession) \<noteq> Inl connectionClosed"
proof -
  let ?s = "quietSession (standardsPage featurePage)"
  have ok: "newPageFailure ?s = None \<and> closeFailure ?s = None"
    by (simp add: quietSession_def)
  note inst = scrapeWebsite_throws_past_boundary [of "\<lambda>k. 0" "''u''" ?s]
  from inst ok obtain r where r: "snd (scrapeWebsite (\<lambda>k. 0) ''u'' ?s) = Inr r"
      and alt: "errors r = [] \<or> (\<exists>e. errors r = [e] \<and> sections r = [])"
    by blast
  have "r = \<lparr> url = ''u'', title = [], sections = [], errors = [nullChildNodes] \<rparr>"
    using r featurePage_result [of "\<lambda>k. 0" "''u''"] by simp
  then have "errors r = [nullChildNodes]" by simp
  with alt have "errors r = [nullChildNodes] \<and> sections r = []" by auto
  with r have ex: "\<exists>r. snd (scrapeWebsite (\<lambda>k. 0) ''u'' ?s) = Inr r
         \<and> errors r = [nullChildNodes] \<and> sections r = []"
    by blast
  have "snd (scrapeWebsite (\<lambda>k. 0) ''u'' closedBrowserSession) = Inl connectionClosed \<longleftrightarrow>
      newPageFailure closedBrowserSession = Some connectionClosed
      \<or> (newPageFailure closedBrowserSession = None
          \<and> closeFailure closedBrowserSession = Some connectionClosed)"
    using scrapeWebsite_throws_past_boundary [of "\<lambda>k. 0" "''u''" closedBrowserSession connectionClosed]
    by blast
  then have "snd (scrapeWebsite (\<lambda>k. 0) ''u'' closedBrowserSession) \<noteq> Inl connectionClosed"
    by (simp add: closedBrowserSession_def targetClosed_def connectionClosed_def)
  with ok ex show ?thesis by blast
qed

text \<open>
  Claim C2, evaluated where the code departs from it. On \<open>linkPage\<close> the text is rendered
  once, yet the collector returns two candidates with that text, the link and the \<open>span\<close>
  inside it, and \<open>scrapeWebsite\<close> returns two sections with identical text.
\<close>

theorem link_text_captured_twice:
  "map_sum id (map (\<lambda>c. (tag c, text c))) (extractElements linkPage quirks) =
     Inr [(''a'', ''Call us today now''), (''span'', ''Call us today now'')]
   \<and> map_sum id (\<lambda>r. map section_text (sections r))
        (snd (scrapeWebsite counter address
           (quietSession \<lparr> pageTitle = heading, quirksMode = quirks,
                           documentElement = linkPage \<rparr>))) =
      Inr [''Call us today now'', ''Call us today now'']"
  by (cases quirks) (simp_all add: linkPage_result)












text \<open>
  Claim C7, evaluated where the code departs from it. The counters belong to the scraper
  object, \<open>resetCounters\<close> runs at the start of \<open>scrapeWebsite\<close>, and the sections are
  assembled after the page has been loaded and read. The identifiers of the sections of a
  category, in output order, are the category name followed by consecutive numbers that
  start one above what the counter holds when the assembly starts: zero as set by
  \<open>resetCounters\<close>, changed by whatever other calls on the same scraper object did in
  between. Alone, a call on \<open>servicesPage\<close> numbers its three service sections 1, 2 and
  3 whatever the counters held before; overlapped by a second call that resets the
  counters and assembles three service sections of its own, it numbers them 4, 5 and 6.
\<close>

theorem counters_shared_between_calls:
  "(snd (scrapeWebsite counter address s) = Inr r \<longrightarrow>
      map sectionId (filter (\<lambda>x. sectionType x = t) (sections r)) =
        map (\<lambda>k. typeName t @ ''-'' @ showNat k)
          [meanwhile s (\<lambda>key. 0) t + 1 ..<
             meanwhile s (\<lambda>key. 0) t + 1 + length (filter (\<lambda>x. sectionType x = t) (sections r))])
   \<and> map_sum id (\<lambda>r. map sectionId (sections r))
        (snd (scrapeWebsite counter address (quietSession (standardsPage servicesPage)))) =
      Inr [''service-1'', ''service-2'', ''other-1'', ''service-3'']
   \<and> map_sum id (\<lambda>r. map sectionId (sections r))
        (snd (scrapeWebsite counter address overlappedSession)) =
      Inr [''service-4'', ''service-5'', ''other-2'', ''service-6'']"
proof (intro conjI impI)
  assume ret: "snd (scrapeWebsite counter address s) = Inr r"
  define c0 where "c0 = meanwhile s (\<lambda>key. 0)"
  have r: "r = snd (tryBlock c0 address (loaded s))"
    using ret by (simp add: scrapeWebsite_returned c0_def resetCounters_def)
  have "\<exists>gs. sections r = snd (mapSections c0 0 gs)"
  proof (cases "sections r = []")
    case True
    then have "sections r = snd (mapSections c0 0 [])" by simp
    then show ?thesis by blast
  next
    case False
    then show ?thesis
      unfolding r tryBlock_sections by (auto split: sum.splits option.splits)
  qed
  then obtain gs where gs: "sections r = snd (mapSections c0 0 gs)" by blast
  have "length (filter (\<lambda>x. sectionType x = t) (snd (mapSections c0 0 gs))) =
          count_list (map determineSectionType gs) t"
    by (rule mapSections_count)
  then show "map sectionId (filter (\<lambda>x. sectionType x = t) (sections r)) =
        map (\<lambda>k. typeName t @ ''-'' @ showNat k)
          [meanwhile s (\<lambda>key. 0) t + 1 ..<
             meanwhile s (\<lambda>key. 0) t + 1 + length (filter (\<lambda>x. sectionType x = t) (sections r))]"
    unfolding gs using mapSections_ids [of t c0 0 gs] by (simp add: c0_def)
next
  show "map_sum id (\<lambda>r. map sectionId (sections r))
        (snd (scrapeWebsite counter address (quietSession (standardsPage servicesPage)))) =
      Inr [''service-1'', ''service-2'', ''other-1'', ''service-3'']"
    by (rule servicesPage_ids(2))
next
  show "map_sum id (\<lambda>r. map sectionId (sections r))
        (snd (scrapeWebsite counter address overlappedSession)) =
      Inr [''service-4'', ''service-5'', ''other-2'', ''service-6'']"
    by (rule servicesPage_ids(1))
qed

theorem counters_shared_between_calls_witness:
  "\<exists>r. snd (scrapeWebsite (\<lambda>k. 7) ''u'' (quietSession (standardsPage servicesPage))) = Inr r
     \<and> map sectionId (filter (\<lambda>x. sectionType x = Service) (sections r)) =
         [''service-1'', ''service-2'', ''service-3'']"
proof -
  let ?s = "quietSession (standardsPage servicesPage)"
  obtain r where r: "snd (scrapeWebsite (\<lambda>k. 7) ''u'' ?s) = Inr r"
    using servicesPage_ids(2) [of "\<lambda>k. 7" "''u''"]
    by (cases "snd (scrapeWebsite (\<lambda>k. 7) ''u'' ?s)") auto
  have types: "map sectionType (sections r) = [Service, Service, Other, Service]"
    using servicesPage_ids(3) [of "\<lambda>k. 7" "''u''"] r by simp
  have n: "length (filter (\<lambda>x. sectionType x = Service) (sections r)) = 3"
  proof -
    have "length (filter (\<lambda>x. sectionType x = Service) (sections r)) =
            length (filter (\<lambda>ty. ty = Service) (map sectionType (sections r)))"
      by (simp add: filter_map comp_def)
    then show ?thesis by (simp add: types)
  qed
  have quiet: "meanwhile ?s (\<lambda>key. 0) Service = 0" by (simp add: quietSession_def)
  have "map sectionId (filter (\<lambda>x. sectionType x = Service) (sections r)) =
          map (\<lambda>k. typeName Service @ ''-'' @ showNat k) [0 + 1 ..< 0 + 1 + 3]"
    using counters_shared_between_calls [of "\<lambda>k. 7" "''u''" ?s r Service] r
    by (simp only: n quiet)
  also have "[0 + 1 ..< 0 + 1 + 3] = [1, 2, 3::nat]" by (simp add: upt_rec)
  also have "map (\<lambda>k. typeName Service @ ''-'' @ showNat k) [1, 2, 3] =
      [''service-1'', ''service-2'', ''service-3'']"
    by (simp add: showNat_digits)
  finally have ids: "map sectionId (filter (\<lambda>x. sectionType x = Service) (sections r)) =
      [''service-1'', ''service-2'', ''service-3'']" .
  show ?thesis by (rule exI [of _ r], rule conjI, rule r, rule ids)
qed

text \<open>
  Claim C8. For every section that \<open>scrapeWebsite\<close> returns, \<open>charCount\<close> is the length
  of the section's text; the texts of the sections are the combined texts of the groups,
  unchanged.
\<close>

theorem charCount_is_text_length:
  "(\<forall>r. snd (scrapeWebsite counter address s) = Inr r \<longrightarrow>
       (\<forall>x \<in> set (sections r). charCount x = length (section_text x)))
   \<and> map section_text (snd (mapSections counter index gs)) = map combinedText gs
   \<and> map charCount (snd (mapSections counter index gs)) = map (\<lambda>g. length (combinedText g)) gs"
proof (intro conjI allI impI ballI)
  fix r x
  assume ret: "snd (scrapeWebsite counter address s) = Inr r" and x: "x \<in> set (sections r)"
  from ret have "r = snd (tryBlock (meanwhile s (resetCounters counter)) address (loaded s))"
    by (simp add: scrapeWebsite_returned)
  with x obtain c raw where "x \<in> set (snd (mapSections c 0 (groupRelatedContent raw)))"
    by (auto simp: tryBlock_sections split: sum.splits option.splits)
  then show "charCount x = length (section_text x)" by (rule mapSections_charCount_text)
next
  show "map section_text (snd (mapSections counter index gs)) = map combinedText gs"
    by (rule mapSections_texts)
next
  show "map charCount (snd (mapSections counter index gs)) = map (\<lambda>g. length (combinedText g)) gs"
    by (rule mapSections_charCount)
qed

theorem charCount_is_text_length_witness:
  "\<exists>r. snd (scrapeWebsite (\<lambda>k. 0) ''u'' (quietSession (standardsPage iconButtonPage))) = Inr r
     \<and> sections r \<noteq> []
     \<and> charCount (hd (sections r)) = length (section_text (hd (sections r)))
     \<and> charCount (hd (sections r)) = 23"
proof -
  let ?s = "quietSession (standardsPage iconButtonPage)"
  obtain r where r: "snd (scrapeWebsite (\<lambda>k. 0) ''u'' ?s) = Inr r"
    and secs: "sections r \<noteq> []" "charCount (hd (sections r)) = 23"
    using iconButtonPage_result [of "\<lambda>k. 0" "''u''"] by simp
  have "hd (sections r) \<in> set (sections r)" using secs(1) by simp
  with charCount_is_text_length [of "\<lambda>k. 0" "''u''" ?s] r
  have "charCount (hd (sections r)) = length (section_text (hd (sections r)))" by blast
  with r secs show ?thesis by blast
qed




text \<open>
  Claim C10. When the button that \<open>findAssociatedButton\<close> finds is not yet consumed and
  its normalized text is empty, the result has \<open>hasButton\<close> true and \<open>buttonText\<close> null;
  and there is a page for which \<open>scrapeWebsite\<close> returns a section with \<open>hasButton\<close> true
  and \<open>buttonText\<close> null.
\<close>

theorem button_without_label:
  "(findButton root quirks x = Some (br, be, bkids) \<and> br \<notin> processed
      \<and> normalizeSpaces
           (if innerText be \<noteq> [] then innerText be else textContent (Element be bkids)) = []
      \<longrightarrow> findAssociatedButton root quirks processed x =
            \<lparr> hasButton = True, buttonText = None, buttonElement = Some br \<rparr>)
   \<and> (\<exists>s r. snd (scrapeWebsite counter address s) = Inr r
         \<and> (\<exists>y \<in> set (sections r). section_hasButton y \<and> section_buttonText y = None))"
proof
  show "findButton root quirks x = Some (br, be, bkids) \<and> br \<notin> processed
      \<and> normalizeSpaces
           (if innerText be \<noteq> [] then innerText be else textContent (Element be bkids)) = []
      \<longrightarrow> findAssociatedButton root quirks processed x =
            \<lparr> hasButton = True, buttonText = None, buttonElement = Some br \<rparr>"
    using empty_label_button by blast
  let ?r = "\<lparr> url = address, title = [],
           sections =
             [\<lparr> sectionId = ''other-1'', sectionType = Other, section_element = ''p'',
                section_text = ''We haul junk away today'', charCount = 23,
                parentContainer = ''section'', section_xpath = ''/html/body/p[1]'', order = 1,
                section_keywords = [], section_hasButton = True, section_buttonText = None \<rparr>],
           errors = [] \<rparr>"
  have "snd (scrapeWebsite counter address (quietSession (standardsPage iconButtonPage))) = Inr ?r"
    by (rule iconButtonPage_result)
  moreover have "\<exists>y \<in> set (sections ?r). section_hasButton y \<and> section_buttonText y = None"
    by simp
  ultimately show "\<exists>s r. snd (scrapeWebsite counter address s) = Inr r
         \<and> (\<exists>y \<in> set (sections r). section_hasButton y \<and> section_buttonText y = None)"
    by blast
qed

theorem button_without_label_witness:
  "findButton iconButtonPage False iconParagraph =
     Some ([1, 0], visibleElem ''BUTTON'' [] [] 50 90, [])
   \<and> findAssociatedButton iconButtonPage False {} iconParagraph =
       \<lparr> hasButton = True, buttonText = None, buttonElement = Some [1, 0] \<rparr>"
  using button_without_label [of iconButtonPage False iconParagraph "[1, 0]"
      "visibleElem ''BUTTON'' [] [] 50 90" "[]" "{}" "\<lambda>k. 0" "[]"] iconButton_facts
  by blast


end
